theory Spec2Isabelle
  imports Complex_Main "HOL-Library.Sublist"
begin

section \<open>JavaScript values\<close>

text \<open>
  The checkout backend is JavaScript: request bodies, product files and provider events
  are untyped JSON values, and every check of the source is a JavaScript coercion.
  The values below are those JSON can carry, plus \<open>undefined\<close> and the one function
  value the source creates (the arrow function of \<open>handleWebhook\<close>).

  Numbers are the exact rationals their JSON literals denote, plus \<open>NaN\<close>: rounding,
  the range of doubles, infinities and the negative zero are outside the model.
  An object is the list of its own properties in enumeration order.
\<close>

datatype jsnum = Num rat | NaN

datatype closure = StockDecrement jsnum
  \<comment> \<open>\<open>async (currentProduct) => { currentProduct.stock -= quantityPurchased; ... }\<close>,
      closed over \<open>quantityPurchased\<close>\<close>

datatype jsval =
    JUndefined
  | JNull
  | JBool bool
  | JNumber jsnum
  | JString string
  | JArray "jsval list"
  | JObject "(string \<times> jsval) list"
  | JFunction closure

datatype js_error =
    TypeError string
  | SyntaxError string
  | SystemError string string  \<comment> \<open>code, message\<close>
  | ProviderError string       \<comment> \<open>an error thrown by the payment provider's SDK\<close>

fun message :: "js_error \<Rightarrow> string" where
  "message (TypeError m) = m"
| "message (SyntaxError m) = m"
| "message (SystemError c m) = c @ '': '' @ m"
| "message (ProviderError m) = m"

definition quoted :: "string \<Rightarrow> string" where
  "quoted s = [CHR 0x27] @ s @ [CHR 0x27]"

text \<open>Sequencing of computations that may throw: the first error wins.\<close>

definition bind :: "js_error + 'a \<Rightarrow> ('a \<Rightarrow> js_error + 'b) \<Rightarrow> js_error + 'b" where
  "bind m f = (case m of Inl e \<Rightarrow> Inl e | Inr x \<Rightarrow> f x)"

fun sequence :: "(js_error + 'a) list \<Rightarrow> js_error + 'a list" where
  "sequence [] = Inr []"
| "sequence (m # ms) = bind m (\<lambda>x. bind (sequence ms) (\<lambda>xs. Inr (x # xs)))"

subsection \<open>Numbers and strings\<close>

definition is_integer :: "rat \<Rightarrow> bool" where
  "is_integer r \<longleftrightarrow> of_int \<lfloor>r\<rfloor> = r"

definition digit_char :: "nat \<Rightarrow> char" where
  "digit_char d = ''0123456789'' ! (d mod 10)"

fun show_nat :: "nat \<Rightarrow> string" where
  "show_nat n = (if n < 10 then [digit_char n] else show_nat (n div 10) @ [digit_char (n mod 10)])"

declare show_nat.simps [simp del]

text \<open>The digits after the decimal point, at most \<open>k\<close> of them.\<close>

fun frac_digits :: "nat \<Rightarrow> rat \<Rightarrow> string" where
  "frac_digits 0 r = []"
| "frac_digits (Suc k) r =
     (if r = 0 then []
      else digit_char (nat \<lfloor>r * 10\<rfloor>) # frac_digits k (r * 10 - of_int \<lfloor>r * 10\<rfloor>))"

text \<open>
  \<open>Number::toString\<close>: integers in decimal, other numbers with their decimal expansion
  (JavaScript prints at most 17 significant digits and switches to exponent notation
  from \<open>1e21\<close> and below \<open>1e-6\<close>; those magnitudes are outside the model).
\<close>

definition number_to_string :: "jsnum \<Rightarrow> string" where
  "number_to_string x =
     (case x of
        NaN \<Rightarrow> ''NaN''
      | Num r \<Rightarrow>
          (let a = \<bar>r\<bar>; i = nat \<lfloor>a\<rfloor>; f = a - of_int \<lfloor>a\<rfloor>
           in (if r < 0 then ''-'' else '''') @ show_nat i @
              (if f = 0 then '''' else ''.'' @ frac_digits 17 f)))"

definition is_digit :: "char \<Rightarrow> bool" where
  "is_digit c \<longleftrightarrow> c \<in> set ''0123456789''"

definition digit_val :: "char \<Rightarrow> nat" where
  "digit_val c = length (takeWhile (\<lambda>d. d \<noteq> c) ''0123456789'')"

definition digits_val :: "string \<Rightarrow> nat" where
  "digits_val ds = foldl (\<lambda>n c. 10 * n + digit_val c) 0 ds"

definition is_space :: "char \<Rightarrow> bool" where
  "is_space c \<longleftrightarrow> c \<in> set [CHR '' '', CHR 0x09, CHR 0x0A, CHR 0x0B, CHR 0x0C, CHR 0x0D]"

definition trim :: "string \<Rightarrow> string" where
  "trim s = rev (dropWhile is_space (rev (dropWhile is_space s)))"

definition strip_sign :: "string \<Rightarrow> bool \<times> string" where
  "strip_sign s =
     (case s of
        [] \<Rightarrow> (False, [])
      | c # cs \<Rightarrow> if c = CHR ''-'' then (True, cs) else if c = CHR ''+'' then (False, cs) else (False, s))"

definition signed :: "bool \<Rightarrow> rat \<Rightarrow> jsnum" where
  "signed neg r = Num (if neg then - r else r)"

text \<open>
  \<open>StringToNumber\<close>, for the decimal literals \<open>[+-]digits[.digits]\<close> and \<open>[+-].digits\<close>
  between optional white space; the empty string is 0. JavaScript also reads exponents,
  \<open>Infinity\<close> and the prefixes \<open>0x\<close>, \<open>0o\<close>, \<open>0b\<close>, which the model reads as \<open>NaN\<close>.
\<close>

definition string_to_number :: "string \<Rightarrow> jsnum" where
  "string_to_number s =
     (let t = trim s in
      if t = [] then Num 0
      else
        let (neg, u) = strip_sign t;
            ip = takeWhile is_digit u;
            rest = dropWhile is_digit u
        in case rest of
             [] \<Rightarrow> if ip = [] then NaN else signed neg (of_nat (digits_val ip))
           | c # fp \<Rightarrow>
               if c = CHR ''.'' \<and> list_all is_digit fp \<and> (ip \<noteq> [] \<or> fp \<noteq> [])
               then signed neg (of_nat (digits_val ip) + of_nat (digits_val fp) / 10 ^ length fp)
               else NaN)"

text \<open>
  \<open>parseInt(string, 10)\<close> on a string: leading white space, an optional sign, then the
  longest prefix of decimal digits; \<open>NaN\<close> when there is none.
\<close>

definition parse_int10 :: "string \<Rightarrow> jsnum" where
  "parse_int10 s =
     (let (neg, u) = strip_sign (dropWhile is_space s);
          ds = takeWhile is_digit u
      in if ds = [] then NaN else signed neg (of_nat (digits_val ds)))"

fun intercalate :: "string \<Rightarrow> string list \<Rightarrow> string" where
  "intercalate sep [] = []"
| "intercalate sep [x] = x"
| "intercalate sep (x # y # zs) = x @ sep @ intercalate sep (y # zs)"

subsection \<open>Coercions\<close>

text \<open>
  \<open>ToString\<close>. An array joins its elements with commas (\<open>null\<close> and \<open>undefined\<close>
  elements print as nothing); a plain object prints as \<open>[object Object]\<close>, unless it has
  an own property \<open>toString\<close>: a value parsed from JSON is never callable, so the
  conversion finds no method that returns a primitive and throws.
\<close>

fun to_string :: "jsval \<Rightarrow> js_error + string" where
  "to_string JUndefined = Inr ''undefined''"
| "to_string JNull = Inr ''null''"
| "to_string (JBool b) = Inr (if b then ''true'' else ''false'')"
| "to_string (JNumber x) = Inr (number_to_string x)"
| "to_string (JString s) = Inr s"
| "to_string (JArray xs) =
     bind (sequence (map (\<lambda>x. if x = JUndefined \<or> x = JNull then Inr [] else to_string x) xs))
       (\<lambda>ss. Inr (intercalate '','' ss))"
| "to_string (JObject kvs) =
     (if ''toString'' \<in> set (map fst kvs)
      then Inl (TypeError ''Cannot convert object to primitive value'')
      else Inr ''[object Object]'')"
| "to_string (JFunction c) = Inr ''async (currentProduct) => { ... }''"

text \<open>\<open>ToPrimitive\<close>: arrays, objects and functions become their string.\<close>

definition to_primitive :: "jsval \<Rightarrow> js_error + jsval" where
  "to_primitive v =
     (case v of
        JArray xs \<Rightarrow> bind (to_string v) (\<lambda>s. Inr (JString s))
      | JObject kvs \<Rightarrow> bind (to_string v) (\<lambda>s. Inr (JString s))
      | JFunction c \<Rightarrow> bind (to_string v) (\<lambda>s. Inr (JString s))
      | _ \<Rightarrow> Inr v)"

text \<open>\<open>ToNumber\<close> of a primitive.\<close>

definition prim_to_number :: "jsval \<Rightarrow> jsnum" where
  "prim_to_number v =
     (case v of
        JUndefined \<Rightarrow> NaN
      | JNull \<Rightarrow> Num 0
      | JBool b \<Rightarrow> Num (if b then 1 else 0)
      | JNumber x \<Rightarrow> x
      | JString s \<Rightarrow> string_to_number s
      | _ \<Rightarrow> NaN)"

definition to_number :: "jsval \<Rightarrow> js_error + jsnum" where
  "to_number v = bind (to_primitive v) (\<lambda>p. Inr (prim_to_number p))"

text \<open>Truthiness (\<open>!v\<close> is its negation).\<close>

definition truthy :: "jsval \<Rightarrow> bool" where
  "truthy v =
     (case v of
        JUndefined \<Rightarrow> False
      | JNull \<Rightarrow> False
      | JBool b \<Rightarrow> b
      | JNumber x \<Rightarrow> (case x of NaN \<Rightarrow> False | Num r \<Rightarrow> r \<noteq> 0)
      | JString s \<Rightarrow> s \<noteq> []
      | _ \<Rightarrow> True)"

text \<open>\<open>Number.isInteger\<close>: no coercion, only a number that is integral.\<close>

definition Number_isInteger :: "jsval \<Rightarrow> bool" where
  "Number_isInteger v = (case v of JNumber (Num r) \<Rightarrow> is_integer r | _ \<Rightarrow> False)"

text \<open>
  The relational operators. Two strings compare by code unit; otherwise both sides
  become numbers and a comparison with \<open>NaN\<close> is false.
\<close>

fun str_less :: "string \<Rightarrow> string \<Rightarrow> bool" where
  "str_less [] [] = False"
| "str_less [] (y # ys) = True"
| "str_less (x # xs) [] = False"
| "str_less (x # xs) (y # ys) =
     (if x = y then str_less xs ys else (of_char x :: nat) < of_char y)"

definition num_less :: "jsnum \<Rightarrow> jsnum \<Rightarrow> bool" where
  "num_less a b = (case (a, b) of (Num x, Num y) \<Rightarrow> x < y | _ \<Rightarrow> False)"

definition num_le :: "jsnum \<Rightarrow> jsnum \<Rightarrow> bool" where
  "num_le a b = (case (a, b) of (Num x, Num y) \<Rightarrow> x \<le> y | _ \<Rightarrow> False)"

definition prim_less :: "jsval \<Rightarrow> jsval \<Rightarrow> bool" where
  "prim_less p q =
     (case (p, q) of
        (JString s, JString t) \<Rightarrow> str_less s t
      | _ \<Rightarrow> num_less (prim_to_number p) (prim_to_number q))"

definition prim_le :: "jsval \<Rightarrow> jsval \<Rightarrow> bool" where
  "prim_le p q =
     (case (p, q) of
        (JString s, JString t) \<Rightarrow> \<not> str_less t s
      | _ \<Rightarrow> num_le (prim_to_number p) (prim_to_number q))"

definition js_lt :: "jsval \<Rightarrow> jsval \<Rightarrow> js_error + bool" where
  "js_lt a b = bind (to_primitive a) (\<lambda>p. bind (to_primitive b) (\<lambda>q. Inr (prim_less p q)))"

definition js_gt :: "jsval \<Rightarrow> jsval \<Rightarrow> js_error + bool" where
  "js_gt a b = bind (to_primitive a) (\<lambda>p. bind (to_primitive b) (\<lambda>q. Inr (prim_less q p)))"

definition js_le :: "jsval \<Rightarrow> jsval \<Rightarrow> js_error + bool" where
  "js_le a b = bind (to_primitive a) (\<lambda>p. bind (to_primitive b) (\<lambda>q. Inr (prim_le p q)))"

definition num_mul :: "jsnum \<Rightarrow> jsnum \<Rightarrow> jsnum" where
  "num_mul a b = (case (a, b) of (Num x, Num y) \<Rightarrow> Num (x * y) | _ \<Rightarrow> NaN)"

definition js_mul :: "jsval \<Rightarrow> jsval \<Rightarrow> js_error + jsval" where
  "js_mul a b = bind (to_number a) (\<lambda>x. bind (to_number b) (\<lambda>y. Inr (JNumber (num_mul x y))))"

subsection \<open>Properties\<close>

text \<open>
  \<open>v.k\<close>: reading a property of \<open>undefined\<close> or \<open>null\<close> throws. The property names this
  program reads (\<open>stock\<close>, \<open>amount\<close>, \<open>metadata\<close>, ...) are own properties of objects
  only: on a string, number, boolean or array they are \<open>undefined\<close>.
\<close>

definition get_prop :: "jsval \<Rightarrow> string \<Rightarrow> js_error + jsval" where
  "get_prop v k =
     (case v of
        JUndefined \<Rightarrow> Inl (TypeError (''Cannot read properties of undefined (reading '' @ quoted k @ '')''))
      | JNull \<Rightarrow> Inl (TypeError (''Cannot read properties of null (reading '' @ quoted k @ '')''))
      | JObject kvs \<Rightarrow> Inr (case map_of kvs k of None \<Rightarrow> JUndefined | Some x \<Rightarrow> x)
      | _ \<Rightarrow> Inr JUndefined)"

text \<open>Setting a property in an object literal: in place when the key exists, else appended.\<close>

fun set_prop :: "(string \<times> jsval) list \<Rightarrow> string \<Rightarrow> jsval \<Rightarrow> (string \<times> jsval) list" where
  "set_prop [] k v = [(k, v)]"
| "set_prop ((k', v') # kvs) k v =
     (if k' = k then (k, v) # kvs else (k', v') # set_prop kvs k v)"

text \<open>
  The spread \<open>{...v}\<close>: the own enumerable properties of an object, the indexed elements
  of an array or string, nothing for the other values (also \<open>null\<close> and \<open>undefined\<close>).
\<close>

definition spread :: "jsval \<Rightarrow> (string \<times> jsval) list" where
  "spread v =
     (case v of
        JObject kvs \<Rightarrow> kvs
      | JArray xs \<Rightarrow> zip (map show_nat [0..<length xs]) xs
      | JString s \<Rightarrow> zip (map show_nat [0..<length s]) (map (\<lambda>c. JString [c]) s)
      | _ \<Rightarrow> [])"

text \<open>
  \<open>v.toString()\<close>: a method call, so it throws on \<open>undefined\<close> and \<open>null\<close>, and on an
  object whose own \<open>toString\<close> property (from JSON, so not callable) shadows the method.
\<close>

definition call_toString :: "jsval \<Rightarrow> js_error + string" where
  "call_toString v =
     (case v of
        JUndefined \<Rightarrow> Inl (TypeError (''Cannot read properties of undefined (reading '' @ quoted ''toString'' @ '')''))
      | JNull \<Rightarrow> Inl (TypeError (''Cannot read properties of null (reading '' @ quoted ''toString'' @ '')''))
      | JObject kvs \<Rightarrow>
          (if ''toString'' \<in> set (map fst kvs) then Inl (TypeError ''toString is not a function'')
           else to_string v)
      | _ \<Rightarrow> to_string v)"

section \<open>The runtime: paths, JSON text, files, console and provider\<close>

subsection \<open>\<open>path.join\<close>\<close>

text \<open>
  Node's POSIX \<open>path.join\<close>: the non-empty arguments are joined with \<open>/\<close> and the
  result is normalised. Normalisation drops empty and \<open>.\<close> segments, and a \<open>..\<close>
  segment removes the segment before it (at the root of an absolute path it is dropped;
  in a relative path with nothing left to remove it is kept).
\<close>

fun split_slash :: "string \<Rightarrow> string list" where
  "split_slash [] = [[]]"
| "split_slash (c # cs) =
     (if c = CHR ''/'' then [] # split_slash cs
      else (case split_slash cs of [] \<Rightarrow> [[c]] | s # ss \<Rightarrow> (c # s) # ss))"

fun normalize_segments :: "bool \<Rightarrow> string list \<Rightarrow> string list \<Rightarrow> string list" where
  "normalize_segments absolute acc [] = rev acc"
| "normalize_segments absolute acc (s # ss) =
     (if s = [] \<or> s = ''.'' then normalize_segments absolute acc ss
      else if s = ''..'' then
        (case acc of
           [] \<Rightarrow> normalize_segments absolute (if absolute then [] else [''..'']) ss
         | a # as \<Rightarrow>
             if a = ''..'' then normalize_segments absolute (''..'' # acc) ss
             else normalize_segments absolute as ss)
      else normalize_segments absolute (s # acc) ss)"

definition path_normalize :: "string \<Rightarrow> string" where
  "path_normalize p =
     (if p = [] then ''.''
      else
        let absolute = (hd p = CHR ''/'');
            trailing = (last p = CHR ''/'');
            q = intercalate ''/'' (normalize_segments absolute [] (split_slash p))
        in if q = [] then (if absolute then ''/'' else if trailing then ''./'' else ''.'')
           else (if absolute then ''/'' else []) @ q @ (if trailing then ''/'' else []))"

definition path_join :: "string list \<Rightarrow> string" where
  "path_join args =
     (let parts = filter (\<lambda>a. a \<noteq> []) args
      in if parts = [] then ''.'' else path_normalize (intercalate ''/'' parts))"

subsection \<open>JSON text\<close>

text \<open>
  The text of a file, up to what \<open>JSON.parse\<close> makes of it: either text that parses,
  identified with the value it parses to, or text that does not parse.
  \<open>JSON.stringify\<close> produces the text of the value's JSON image: it has no text for
  \<open>undefined\<close> and for a function (the result is \<open>undefined\<close>, not a string), drops
  the properties of an object that hold one of them, and writes \<open>null\<close> for them in an
  array and for \<open>NaN\<close>. That \<open>JSON.parse\<close> reads back the value whose text
  \<open>JSON.stringify\<close> wrote is the contract of the JavaScript runtime and is built into
  this type; what the repository adds (which value is serialised, to which path, under
  which checks) is modelled below.
\<close>

datatype file_text = JsonText jsval | PlainText string

fun json_image :: "jsval \<Rightarrow> jsval option"
  and json_elements :: "jsval list \<Rightarrow> jsval list"
  and json_properties :: "(string \<times> jsval) list \<Rightarrow> (string \<times> jsval) list" where
  "json_image JUndefined = None"
| "json_image (JFunction c) = None"
| "json_image JNull = Some JNull"
| "json_image (JBool b) = Some (JBool b)"
| "json_image (JNumber x) = Some (case x of NaN \<Rightarrow> JNull | Num r \<Rightarrow> JNumber (Num r))"
| "json_image (JString s) = Some (JString s)"
| "json_image (JArray xs) = Some (JArray (json_elements xs))"
| "json_image (JObject kvs) = Some (JObject (json_properties kvs))"
| "json_elements [] = []"
| "json_elements (x # xs) =
     (case json_image x of None \<Rightarrow> JNull | Some y \<Rightarrow> y) # json_elements xs"
| "json_properties [] = []"
| "json_properties ((k, v) # kvs) =
     (case json_image v of None \<Rightarrow> json_properties kvs | Some y \<Rightarrow> (k, y) # json_properties kvs)"

definition JSON_stringify :: "jsval \<Rightarrow> file_text option" where
  "JSON_stringify v = map_option JsonText (json_image v)"

definition JSON_parse :: "file_text \<Rightarrow> js_error + jsval" where
  "JSON_parse t =
     (case t of
        JsonText v \<Rightarrow> Inr v
      | PlainText s \<Rightarrow> Inl (SyntaxError ''Unexpected token in JSON''))"

text \<open>
  A JSON-representable value: no \<open>undefined\<close>, function or \<open>NaN\<close> anywhere in it, and
  every object has each key once.
\<close>

fun json_representable :: "jsval \<Rightarrow> bool"
  and json_representable_list :: "jsval list \<Rightarrow> bool"
  and json_representable_properties :: "(string \<times> jsval) list \<Rightarrow> bool" where
  "json_representable JUndefined = False"
| "json_representable (JFunction c) = False"
| "json_representable JNull = True"
| "json_representable (JBool b) = True"
| "json_representable (JNumber x) = (x \<noteq> NaN)"
| "json_representable (JString s) = True"
| "json_representable (JArray xs) = json_representable_list xs"
| "json_representable (JObject kvs) =
     (distinct (map fst kvs) \<and> json_representable_properties kvs)"
| "json_representable_list [] = True"
| "json_representable_list (x # xs) = (json_representable x \<and> json_representable_list xs)"
| "json_representable_properties [] = True"
| "json_representable_properties ((k, v) # kvs) =
     (json_representable v \<and> json_representable_properties kvs)"

subsection \<open>Files, console and the payment provider\<close>

text \<open>
  The file system maps a path to a directory or to a regular file with its read and
  write permission and its text. Every call the handlers make to the file system, the
  console and the payment provider is appended to the log of the world, in order.
\<close>

datatype fnode = Dir | File (readable: bool) (writable: bool) (content: file_text)

datatype console_arg = Val jsval | Err js_error

datatype effect =
    FsAccess string
  | FsReadFile string
  | FsWriteFile string "file_text option"
  | StripeSessionsCreate jsval
  | ConsoleLog "console_arg list"
  | ConsoleError "console_arg list"

record world =
  files :: "string \<Rightarrow> fnode option"
  log :: "effect list"

definition emit :: "effect \<Rightarrow> world \<Rightarrow> world" where
  "emit e w = w\<lparr>log := log w @ [e]\<rparr>"

text \<open>\<open>fs.access(path)\<close>, mode \<open>F_OK\<close>: succeeds when the path exists.\<close>

definition fs_access :: "world \<Rightarrow> string \<Rightarrow> (js_error + unit) \<times> world" where
  "fs_access w p =
     (case files w p of
        None \<Rightarrow> Inl (SystemError ''ENOENT'' (''no such file or directory, access '' @ quoted p))
      | Some n \<Rightarrow> Inr (),
      emit (FsAccess p) w)"

text \<open>\<open>fs.readFile(path, "utf-8")\<close>.\<close>

definition fs_readFile :: "world \<Rightarrow> string \<Rightarrow> (js_error + file_text) \<times> world" where
  "fs_readFile w p =
     (case files w p of
        None \<Rightarrow> Inl (SystemError ''ENOENT'' (''no such file or directory, open '' @ quoted p))
      | Some Dir \<Rightarrow> Inl (SystemError ''EISDIR'' ''illegal operation on a directory, read'')
      | Some (File r wr t) \<Rightarrow>
          if r then Inr t else Inl (SystemError ''EACCES'' (''permission denied, open '' @ quoted p)),
      emit (FsReadFile p) w)"

text \<open>
  \<open>fs.writeFile(path, data, "utf-8")\<close> of Node 18 (the version the Dockerfile pins):
  the data is validated before the file is opened, and data that is not a string
  (here: the \<open>undefined\<close> that \<open>JSON.stringify\<close> returns) is rejected with a
  \<open>TypeError\<close>, the file untouched. Otherwise the file is replaced, or created.
\<close>

definition ERR_INVALID_ARG_TYPE :: js_error where
  "ERR_INVALID_ARG_TYPE = TypeError
     (''The '' @ [CHR 0x22] @ ''data'' @ [CHR 0x22] @
      '' argument must be of type string or an instance of Buffer, TypedArray, or DataView. Received undefined'')"

definition fs_writeFile :: "world \<Rightarrow> string \<Rightarrow> file_text option \<Rightarrow> (js_error + unit) \<times> world" where
  "fs_writeFile w p data =
     (case data of
        None \<Rightarrow> (Inl ERR_INVALID_ARG_TYPE, emit (FsWriteFile p data) w)
      | Some t \<Rightarrow>
          (case files w p of
             None \<Rightarrow>
               (Inr (), emit (FsWriteFile p data) (w\<lparr>files := (files w)(p \<mapsto> File True True t)\<rparr>))
           | Some Dir \<Rightarrow>
               (Inl (SystemError ''EISDIR'' (''illegal operation on a directory, open '' @ quoted p)),
                emit (FsWriteFile p data) w)
           | Some (File r wr old) \<Rightarrow>
               if wr
               then (Inr (), emit (FsWriteFile p data) (w\<lparr>files := (files w)(p \<mapsto> File r wr t)\<rparr>))
               else (Inl (SystemError ''EACCES'' (''permission denied, open '' @ quoted p)),
                     emit (FsWriteFile p data) w)))"

text \<open>
  What the handlers take from outside the repository: the directory of \<open>helpers.js\<close>
  (\<open>__dirname\<close>), the environment (\<open>process.env\<close>), and the two calls of the payment
  provider's SDK (the module \<open>utils/stripe.js\<close>), which are opaque:
  \<open>stripe.webhooks.constructEvent(body, signature, secret)\<close> returns the event or throws
  when the signature does not verify, \<open>stripe.checkout.sessions.create(params)\<close> returns
  the session or throws.
\<close>

record deps =
  dirname :: string
  env :: "(string \<times> string) list"
  constructEvent :: "jsval \<Rightarrow> jsval \<Rightarrow> jsval \<Rightarrow> js_error + jsval"
  sessions_create :: "jsval \<Rightarrow> js_error + jsval"

definition lookup :: "(string \<times> string) list \<Rightarrow> string \<Rightarrow> jsval" where
  "lookup m k = (case map_of m k of None \<Rightarrow> JUndefined | Some s \<Rightarrow> JString s)"

subsection \<open>Requests and responses\<close>

datatype body = JsonBody jsval | TextBody string

record response =
  status :: nat
  payload :: body

record request =
  req_params :: "(string \<times> string) list"
  req_headers :: "(string \<times> string) list"
  req_body :: jsval
  req_product :: jsval  \<comment> \<open>\<open>req.product\<close>, \<open>undefined\<close> until \<open>loadProductInfo\<close> sets it\<close>

text \<open>
  What a middleware or handler does with a request: it sends a response, passes the
  request on (\<open>next()\<close>), or throws past its own \<open>try\<close> blocks.
\<close>

datatype outcome = Respond response | Next request | Throw js_error

definition json :: "nat \<Rightarrow> (string \<times> jsval) list \<Rightarrow> outcome" where
  "json code obj = Respond \<lparr>status = code, payload = JsonBody (JObject obj)\<rparr>"

section \<open>The Product Store (\<open>utils/helpers.js\<close>)\<close>

datatype product_check = Exists string | NotExists string
  \<comment> \<open>\<open>{exists: true, path}\<close> and \<open>{exists: false, error}\<close>\<close>

datatype 'a store_result = Success 'a | Failure string
  \<comment> \<open>\<open>{success: true, ...}\<close> and \<open>{success: false, error}\<close>\<close>

text \<open>
  \<open>checkProductExists\<close>: the identifier goes into the file name as it is
  (the template literal converts it to a string), the path is joined from the directory
  of \<open>helpers.js\<close>, and \<open>fs.access\<close> decides. Every error is caught and reported as
  \<open>exists: false\<close>.
\<close>

definition checkProductExists :: "deps \<Rightarrow> world \<Rightarrow> jsval \<Rightarrow> product_check \<times> world" where
  "checkProductExists d w productId =
     (case to_string productId of
        Inl e \<Rightarrow> (NotExists (message e), w)
      | Inr s \<Rightarrow>
          (let productPath = path_join [dirname d, ''..'', ''products'', s @ ''.json'']
           in case fs_access w productPath of
                (Inl e, w') \<Rightarrow> (NotExists (message e), w')
              | (Inr u, w') \<Rightarrow> (Exists productPath, w')))"

definition getProduct :: "deps \<Rightarrow> world \<Rightarrow> jsval \<Rightarrow> jsval store_result \<times> world" where
  "getProduct d w productId =
     (case checkProductExists d w productId of
        (NotExists err, w1) \<Rightarrow>
          (case to_string productId of
             Inl e \<Rightarrow> (Failure (message e), w1)
           | Inr s \<Rightarrow> (Failure (''Product '' @ s @ '' not found''), w1))
      | (Exists productPath, w1) \<Rightarrow>
          (case fs_readFile w1 productPath of
             (Inl e, w2) \<Rightarrow> (Failure (message e), w2)
           | (Inr productData, w2) \<Rightarrow>
               (case JSON_parse productData of
                  Inl e \<Rightarrow> (Failure (message e), w2)
                | Inr product \<Rightarrow> (Success product, w2))))"

definition updateProduct :: "deps \<Rightarrow> world \<Rightarrow> jsval \<Rightarrow> jsval \<Rightarrow> unit store_result \<times> world" where
  "updateProduct d w productId updatedProduct =
     (case checkProductExists d w productId of
        (NotExists err, w1) \<Rightarrow>
          (case to_string productId of
             Inl e \<Rightarrow> (Failure (message e), w1)
           | Inr s \<Rightarrow> (Failure (''Product '' @ s @ '' not found''), w1))
      | (Exists productPath, w1) \<Rightarrow>
          (case fs_writeFile w1 productPath (JSON_stringify updatedProduct) of
             (Inl e, w2) \<Rightarrow> (Failure (message e), w2)
           | (Inr u, w2) \<Rightarrow> (Success (), w2)))"

section \<open>The middlewares (\<open>middlewares/validation.js\<close>)\<close>

text \<open>
  \<open>validateCheckoutData\<close>. The default \<open>quantity = 1\<close> of the destructuring binds the
  local variable only: \<open>req.body\<close> is passed on as it came.
\<close>

definition validateCheckoutData :: "request \<Rightarrow> outcome" where
  "validateCheckoutData req =
     (case get_prop (req_body req) ''product_id'' of
        Inl e \<Rightarrow> Throw e
      | Inr product_id \<Rightarrow>
     (case get_prop (req_body req) ''quantity'' of
        Inl e \<Rightarrow> Throw e
      | Inr q \<Rightarrow>
          (let quantity = (if q = JUndefined then JNumber (Num 1) else q) in
           if \<not> truthy product_id then
             json 400 [(''error'', JString ''Product ID is required'')]
           else if \<not> truthy quantity then
             json 400 [(''error'', JString ''Quantity is required'')]
           else
             (case (if \<not> truthy quantity then Inr False
                    else if \<not> Number_isInteger quantity then Inr True
                    else js_lt quantity (JNumber (Num 1))) of
                Inl e \<Rightarrow> Throw e
              | Inr invalid \<Rightarrow>
                  if invalid then
                    json 400 [(''error'', JString ''Quantity must be a positive integer'')]
                  else Next req))))"

text \<open>The body of the \<open>try\<close> block of \<open>loadProductInfo\<close>.\<close>

definition loadProductInfo_try :: "deps \<Rightarrow> world \<Rightarrow> request \<Rightarrow> (js_error + outcome) \<times> world" where
  "loadProductInfo_try d w req =
     (case get_prop (req_body req) ''product_id'' of
        Inl e \<Rightarrow> (Inl e, w)
      | Inr product_id \<Rightarrow>
     (case checkProductExists d w product_id of
        (NotExists err, w1) \<Rightarrow>
          (bind (to_string product_id) (\<lambda>s.
             Inr (json 404
               [(''error'', JString ''Product not found''),
                (''details'', JString (''Product file '' @ s @ ''.json does not exist'')),
                (''debugInfo'', JString err)])),
           w1)
      | (Exists productPath, w1) \<Rightarrow>
     (case fs_readFile w1 productPath of
        (Inl e, w2) \<Rightarrow> (Inl e, w2)
      | (Inr productData, w2) \<Rightarrow>
          (bind (JSON_parse productData) (\<lambda>product.
           bind (get_prop product ''stock'') (\<lambda>stock.
           bind (if \<not> truthy stock then Inr True else js_lt stock (JNumber (Num 1))) (\<lambda>out_of_stock.
             if out_of_stock then
               bind (to_string product_id) (\<lambda>s.
                 Inr (json 400
                   [(''error'', JString ''Product out of stock''),
                    (''details'', JString (''The product with ID '' @ s @ '' is out of stock'')),
                    (''available'', JBool False)]))
             else
               bind (get_prop (req_body req) ''quantity'') (\<lambda>quantity.
               bind (js_gt quantity stock) (\<lambda>insufficient.
                 if insufficient then
                   bind (to_string quantity) (\<lambda>qs.
                   bind (to_string stock) (\<lambda>ss.
                     Inr (json 400
                       [(''error'', JString ''Insufficient stock''),
                        (''details'', JString (''Requested quantity ('' @ qs @
                            '') exceeds available stock ('' @ ss @ '')'')),
                        (''available'', JBool True),
                        (''stock'', stock),
                        (''requested'', quantity)])))
                 else Inr (Next (req\<lparr>req_product := product\<rparr>))))))),
           w2))))"

definition loadProductInfo :: "deps \<Rightarrow> world \<Rightarrow> request \<Rightarrow> outcome \<times> world" where
  "loadProductInfo d w req =
     (case loadProductInfo_try d w req of
        (Inr out, w') \<Rightarrow> (out, w')
      | (Inl error, w') \<Rightarrow>
          (json 500 [(''error'', JString ''Error loading product info'')],
           emit (ConsoleError [Val (JString ''Error loading product info:''), Err error]) w'))"

section \<open>The controller (\<open>controllers/checkoutController.js\<close>)\<close>

definition getProductInfo_try :: "deps \<Rightarrow> world \<Rightarrow> request \<Rightarrow> (js_error + outcome) \<times> world" where
  "getProductInfo_try d w req =
     (let productId = lookup (req_params req) ''id'' in
      case checkProductExists d w productId of
        (NotExists err, w1) \<Rightarrow>
          (bind (to_string productId) (\<lambda>s.
             Inr (json 404
               [(''error'', JString ''Product not found''),
                (''details'', JString (''Product file '' @ s @ ''.json does not exist'')),
                (''debugInfo'', JString err)])),
           w1)
      | (Exists productPath, w1) \<Rightarrow>
     (case fs_readFile w1 productPath of
        (Inl e, w2) \<Rightarrow> (Inl e, w2)
      | (Inr productData, w2) \<Rightarrow>
          (bind (JSON_parse productData) (\<lambda>product.
           bind (get_prop product ''stock'') (\<lambda>stock.
           bind (js_gt stock (JNumber (Num 0))) (\<lambda>available.
           bind (js_le stock (JNumber (Num 0))) (\<lambda>outOfStock.
           bind (js_gt stock (JNumber (Num 0))) (\<lambda>inStock.
             Inr (json 200
               [(''success'', JBool True),
                (''data'', JObject
                   (set_prop (set_prop (set_prop (spread product)
                      ''available'' (JBool available))
                      ''outOfStock'' (JBool outOfStock))
                      ''inStock'' (JBool inStock)))])))))),
           w2)))"

definition getProductInfo :: "deps \<Rightarrow> world \<Rightarrow> request \<Rightarrow> outcome \<times> world" where
  "getProductInfo d w req =
     (case getProductInfo_try d w req of
        (Inr out, w') \<Rightarrow> (out, w')
      | (Inl error, w') \<Rightarrow>
          (json 500 [(''error'', JString ''Error loading product info'')],
           emit (ConsoleError [Val (JString ''Error loading product info:''), Err error]) w'))"

text \<open>
  The argument of \<open>stripe.checkout.sessions.create\<close>. It is built before the call: an
  error while building it (a property of a missing product, \<open>quantity.toString()\<close> of a
  missing quantity) is thrown before the provider is reached.
\<close>

definition session_params :: "deps \<Rightarrow> jsval \<Rightarrow> jsval \<Rightarrow> js_error + jsval" where
  "session_params d product quantity =
     bind (get_prop product ''currency'') (\<lambda>currency.
     bind (get_prop product ''name'') (\<lambda>name.
     bind (get_prop product ''amount'') (\<lambda>amount.
     bind (to_string (lookup (env d) ''SUCCESS_URL'')) (\<lambda>success.
     bind (get_prop product ''id'') (\<lambda>pid.
     bind (call_toString quantity) (\<lambda>qs.
       Inr (JObject
         [(''payment_method_types'', JArray [JString ''card'', JString ''paypal'']),
          (''mode'', JString ''payment''),
          (''line_items'', JArray [JObject
             [(''price_data'', JObject
                 [(''currency'', currency),
                  (''product_data'', JObject [(''name'', name)]),
                  (''unit_amount'', amount)]),
              (''quantity'', quantity)]]),
          (''success_url'', JString (success @ ''?session_id={CHECKOUT_SESSION_ID}'')),
          (''cancel_url'', lookup (env d) ''CANCEL_URL''),
          (''metadata'', JObject
             [(''product_id'', pid),
              (''product_name'', name),
              (''quantity'', JString qs),
              (''order_type'', JString ''single_purchase'')]),
          (''customer_creation'', JString ''always''),
          (''invoice_creation'', JObject [(''enabled'', JBool True)])])))))))"

definition createCheckoutSession_try :: "deps \<Rightarrow> world \<Rightarrow> request \<Rightarrow> (js_error + outcome) \<times> world" where
  "createCheckoutSession_try d w req =
     (case get_prop (req_body req) ''quantity'' of
        Inl e \<Rightarrow> (Inl e, w)
      | Inr quantity \<Rightarrow>
     (case session_params d (req_product req) quantity of
        Inl e \<Rightarrow> (Inl e, w)
      | Inr ps \<Rightarrow>
          (bind (sessions_create d ps) (\<lambda>session.
           bind (get_prop session ''url'') (\<lambda>url.
           bind (get_prop session ''id'') (\<lambda>sid.
           bind (get_prop (req_product req) ''id'') (\<lambda>pid.
           bind (get_prop (req_product req) ''amount'') (\<lambda>amount.
           bind (js_mul amount quantity) (\<lambda>total.
           bind (get_prop (req_product req) ''currency'') (\<lambda>currency.
             Inr (json 200
               [(''success'', JBool True),
                (''checkout_url'', url),
                (''session_id'', sid),
                (''product'', JObject
                   [(''product_id'', pid),
                    (''quantity'', quantity),
                    (''total_amount'', total),
                    (''unit_price'', amount),
                    (''currency'', currency)])])))))))),
           emit (StripeSessionsCreate ps) w)))"

definition createCheckoutSession :: "deps \<Rightarrow> world \<Rightarrow> request \<Rightarrow> outcome \<times> world" where
  "createCheckoutSession d w req =
     (case createCheckoutSession_try d w req of
        (Inr out, w') \<Rightarrow> (out, w')
      | (Inl error, w') \<Rightarrow>
          (json 500 [(''error'', JString ''Error creating checkout session'')],
           emit (ConsoleError [Val (JString ''Error creating checkout session:''), Err error]) w'))"

text \<open>
  The \<open>switch\<close> of \<open>handleWebhook\<close>, which runs outside any \<open>try\<close>: an error here leaves
  the handler. \<open>updateProduct\<close> is called with the arrow function as its second argument.
\<close>

definition dispatch_event :: "deps \<Rightarrow> world \<Rightarrow> jsval \<Rightarrow> (js_error + unit) \<times> world" where
  "dispatch_event d w event =
     (case get_prop event ''type'' of
        Inl e \<Rightarrow> (Inl e, w)
      | Inr ty \<Rightarrow>
          if ty = JString ''checkout.session.completed'' then
            (case bind (get_prop event ''data'') (\<lambda>dat. bind (get_prop dat ''object'') (\<lambda>session.
                    bind (get_prop session ''id'') (\<lambda>sid. Inr (session, sid)))) of
               Inl e \<Rightarrow> (Inl e, w)
             | Inr (session, sid) \<Rightarrow>
                 (let w1 = emit (ConsoleLog
                        [Val (JString ([CHR 0xE2, CHR 0x9C, CHR 0x85] @ '' Checkout completed:'')),
                         Val sid]) w
                  in case bind (get_prop session ''metadata'') (\<lambda>metadata.
                          bind (get_prop metadata ''product_id'') (\<lambda>productId.
                          bind (get_prop metadata ''quantity'') (\<lambda>q.
                          bind (to_string q) (\<lambda>qs. Inr (productId, parse_int10 qs))))) of
                       Inl e \<Rightarrow> (Inl e, w1)
                     | Inr (productId, quantityPurchased) \<Rightarrow>
                         (case updateProduct d w1 productId
                                 (JFunction (StockDecrement quantityPurchased)) of
                            (Failure err, w2) \<Rightarrow>
                              (Inr (), emit (ConsoleError
                                 [Val (JString ''Error updating product stock:''),
                                  Val (JString err)]) w2)
                          | (Success u, w2) \<Rightarrow>
                              (case to_string productId of
                                 Inl e \<Rightarrow> (Inl e, w2)
                               | Inr s \<Rightarrow>
                                   (Inr (), emit (ConsoleLog
                                      [Val (JString (''Product '' @ s @
                                         '' stock updated successfully.''))]) w2)))))
          else if ty = JString ''payment_intent.succeeded'' then
            (case bind (get_prop event ''data'') (\<lambda>dat. bind (get_prop dat ''object'') (\<lambda>paymentIntent.
                    get_prop paymentIntent ''id'')) of
               Inl e \<Rightarrow> (Inl e, w)
             | Inr pid \<Rightarrow>
                 (Inr (), emit (ConsoleLog [Val (JString '' Payment successful:''), Val pid]) w))
          else if ty = JString ''payment_intent.payment_failed'' then
            (case bind (get_prop event ''data'') (\<lambda>dat. bind (get_prop dat ''object'') (\<lambda>failedPayment.
                    get_prop failedPayment ''id'')) of
               Inl e \<Rightarrow> (Inl e, w)
             | Inr pid \<Rightarrow>
                 (Inr (), emit (ConsoleLog [Val (JString '' Payment failed:''), Val pid]) w))
          else
            (case to_string ty of
               Inl e \<Rightarrow> (Inl e, w)
             | Inr s \<Rightarrow>
                 (Inr (), emit (ConsoleLog [Val (JString (''Unhandled event type '' @ s))]) w)))"

definition handleWebhook :: "deps \<Rightarrow> world \<Rightarrow> request \<Rightarrow> outcome \<times> world" where
  "handleWebhook d w req =
     (let sig = lookup (req_headers req) ''stripe-signature'' in
      case constructEvent d (req_body req) sig (lookup (env d) ''STRIPE_WEBHOOK_SECRET'') of
        Inl err \<Rightarrow>
          (Respond \<lparr>status = 400, payload = TextBody (''Webhook Error: '' @ message err)\<rparr>,
           emit (ConsoleError
             [Val (JString ''Webhook signature verification failed:''),
              Val (JString (message err))]) w)
      | Inr event \<Rightarrow>
          (case dispatch_event d w event of
             (Inl e, w') \<Rightarrow> (Throw e, w')
           | (Inr u, w') \<Rightarrow> (json 200 [(''received'', JBool True)], w')))"

section \<open>The routes (\<open>routes/checkoutRoutes.js\<close>)\<close>

text \<open>
  \<open>POST /create-checkout-session\<close> runs the two middlewares and then the controller;
  each stage runs only when the one before called \<open>next()\<close>.
\<close>

definition post_create_checkout_session :: "deps \<Rightarrow> world \<Rightarrow> request \<Rightarrow> outcome \<times> world" where
  "post_create_checkout_session d w req =
     (case validateCheckoutData req of
        Next req1 \<Rightarrow>
          (case loadProductInfo d w req1 of
             (Next req2, w2) \<Rightarrow> createCheckoutSession d w2 req2
           | (out, w2) \<Rightarrow> (out, w2))
      | out \<Rightarrow> (out, w))"

definition get_products_id :: "deps \<Rightarrow> world \<Rightarrow> string \<Rightarrow> outcome \<times> world" where
  "get_products_id d w ident =
     getProductInfo d w 
       \<lparr>req_params = [(''id'', ident)], req_headers = [], req_body = JUndefined, req_product = JUndefined\<rparr>"

definition post_webhook :: "deps \<Rightarrow> world \<Rightarrow> request \<Rightarrow> outcome \<times> world" where
  "post_webhook d w req = handleWebhook d w req"

section \<open>Reading outcomes and events\<close>

text \<open>The status of a response.\<close>

definition status_of :: "outcome \<Rightarrow> nat option" where
  "status_of out = (case out of Respond r \<Rightarrow> Some (status r) | _ \<Rightarrow> None)"

text \<open>The payment sessions requested from the provider so far.\<close>

definition sessions_created :: "world \<Rightarrow> jsval list" where
  "sessions_created w =
     concat (map (\<lambda>e. case e of StripeSessionsCreate ps \<Rightarrow> [ps] | _ \<Rightarrow> []) (log w))"

text \<open>The own property \<open>k\<close> of an object, \<open>undefined\<close> when there is none.\<close>

definition field :: "jsval \<Rightarrow> string \<Rightarrow> jsval" where
  "field v k =
     (case v of
        JObject kvs \<Rightarrow> (case map_of kvs k of None \<Rightarrow> JUndefined | Some x \<Rightarrow> x)
      | _ \<Rightarrow> JUndefined)"

text \<open>The status of a JSON response together with the \<open>error\<close> field of its body.\<close>

definition error_of :: "outcome \<Rightarrow> (nat \<times> jsval) option" where
  "error_of out =
     (case out of
        Respond r \<Rightarrow>
          (case payload r of
             JsonBody b \<Rightarrow> Some (status r, field b ''error'')
           | TextBody t \<Rightarrow> None)
      | _ \<Rightarrow> None)"

definition is_string :: "jsval \<Rightarrow> bool" where
  "is_string v = (case v of JString s \<Rightarrow> True | _ \<Rightarrow> False)"

definition is_object :: "jsval \<Rightarrow> bool" where
  "is_object v = (case v of JObject kvs \<Rightarrow> True | _ \<Rightarrow> False)"

text \<open>
  The shape of an event as the payment provider documents it: an object with a string
  \<open>type\<close> and an object at \<open>data.object\<close>; the object of a completed checkout session
  carries \<open>metadata\<close>, an object whose values are strings.
\<close>

definition stripe_event :: "jsval \<Rightarrow> bool" where
  "stripe_event ev \<longleftrightarrow>
     is_object ev \<and> is_string (field ev ''type'') \<and>
     is_object (field (field ev ''data'') ''object'') \<and>
     (field ev ''type'' = JString ''checkout.session.completed'' \<longrightarrow>
        (case field (field (field ev ''data'') ''object'') ''metadata'' of
           JObject m \<Rightarrow> list_all (\<lambda>kv. is_string (snd kv)) m
         | _ \<Rightarrow> False))"

section \<open>A concrete deployment\<close>

text \<open>
  The scenario of the specification: product \<open>p1\<close> with amount 1000, currency
  \<open>usd\<close> and stock 3, in the layout of the Dockerfile (\<open>/app/src/products\<close>);
  beside it a sold-out product \<open>p0\<close> and the package file of the application.
\<close>

definition p1 :: jsval where
  "p1 = JObject
     [(''id'', JString ''p1''), (''name'', JString ''Product 1''),
      (''amount'', JNumber (Num 1000)), (''currency'', JString ''usd''),
      (''stock'', JNumber (Num 3))]"

definition p0 :: jsval where
  "p0 = JObject
     [(''id'', JString ''p0''), (''name'', JString ''Product 0''),
      (''amount'', JNumber (Num 500)), (''currency'', JString ''usd''),
      (''stock'', JNumber (Num 0))]"

definition package_json :: jsval where
  "package_json = JObject
     [(''name'', JString ''stripe-checkout-api''), (''version'', JString ''1.0.0'')]"

definition example_world :: world where
  "example_world =
     \<lparr>files =
        [''/app/src/products/p1.json'' \<mapsto> File True True (JsonText p1),
         ''/app/src/products/p0.json'' \<mapsto> File True True (JsonText p0),
         ''/app/package.json'' \<mapsto> File True True (JsonText package_json)],
      log = []\<rparr>"

text \<open>
  A provider that accepts the signature \<open>valid\<close> only (the event is then the body), and
  opens the same session for every request.
\<close>

definition example_deps :: deps where
  "example_deps =
     \<lparr>dirname = ''/app/src/utils'',
      env = [(''SUCCESS_URL'', ''https://shop.example/success''),
             (''CANCEL_URL'', ''https://shop.example/cancel''),
             (''STRIPE_WEBHOOK_SECRET'', ''whsec_example'')],
      constructEvent = (\<lambda>payload sig secret.
         if sig = JString ''valid'' then Inr payload
         else Inl (ProviderError ''No signatures found matching the expected signature for payload'')),
      sessions_create = (\<lambda>ps. Inr (JObject
         [(''id'', JString ''cs_test_1''),
          (''url'', JString ''https://checkout.example/cs_test_1'')]))\<rparr>"

definition purchase :: "(string \<times> jsval) list \<Rightarrow> request" where
  "purchase b = \<lparr>req_params = [], req_headers = [], req_body = JObject b, req_product = JUndefined\<rparr>"

definition webhook_request :: "string \<Rightarrow> jsval \<Rightarrow> request" where
  "webhook_request sig b =
     \<lparr>req_params = [], req_headers = [(''stripe-signature'', sig)], req_body = b,
      req_product = JUndefined\<rparr>"

definition make_event :: "string \<Rightarrow> (string \<times> jsval) list \<Rightarrow> jsval" where
  "make_event ty obj = JObject
     [(''id'', JString ''evt_1''), (''type'', JString ty),
      (''data'', JObject [(''object'', JObject obj)])]"

definition completed_event :: jsval where
  "completed_event = make_event ''checkout.session.completed''
     [(''id'', JString ''cs_test_1''),
      (''metadata'', JObject [(''product_id'', JString ''p1''), (''quantity'', JString ''2'')])]"

text \<open>
  Two more completed sessions: one that names a product without a record, and one whose
  \<open>metadata\<close> is \<open>null\<close> (the provider's type of a checkout session has it nullable).
\<close>

definition orphan_event :: jsval where
  "orphan_event = make_event ''checkout.session.completed''
     [(''id'', JString ''cs_test_2''),
      (''metadata'', JObject [(''product_id'', JString ''p9''), (''quantity'', JString ''1'')])]"

definition bare_event :: jsval where
  "bare_event = make_event ''checkout.session.completed''
     [(''id'', JString ''cs_test_3''), (''metadata'', JNull)]"

section \<open>Evaluation and frame lemmas\<close>

lemmas js_defs = Let_def bind_def quoted_def is_integer_def number_to_string_def digit_char_def
  show_nat.simps is_digit_def digit_val_def digits_val_def is_space_def trim_def strip_sign_def
  signed_def string_to_number_def parse_int10_def to_primitive_def prim_to_number_def
  to_number_def truthy_def Number_isInteger_def num_less_def num_le_def prim_less_def prim_le_def
  js_lt_def js_gt_def js_le_def num_mul_def js_mul_def get_prop_def spread_def call_toString_def
  path_normalize_def path_join_def JSON_stringify_def JSON_parse_def emit_def fs_access_def
  fs_readFile_def fs_writeFile_def lookup_def json_def

lemmas app_defs = checkProductExists_def getProduct_def updateProduct_def
  validateCheckoutData_def loadProductInfo_try_def loadProductInfo_def getProductInfo_try_def
  getProductInfo_def session_params_def createCheckoutSession_try_def createCheckoutSession_def
  dispatch_event_def handleWebhook_def post_create_checkout_session_def get_products_id_def
  post_webhook_def status_of_def sessions_created_def field_def error_of_def is_string_def
  is_object_def stripe_event_def

lemmas example_defs = p1_def p0_def package_json_def example_world_def example_deps_def
  purchase_def webhook_request_def make_event_def completed_event_def orphan_event_def
  bare_event_def

lemma emit_files [simp]: "files (emit e w) = files w"
  by (simp add: emit_def)

lemma emit_log [simp]: "log (emit e w) = log w @ [e]"
  by (simp add: emit_def)

lemma fs_access_files: "fs_access w p = (r, w') \<Longrightarrow> files w' = files w"
  by (auto simp: fs_access_def)

lemma fs_readFile_files: "fs_readFile w p = (r, w') \<Longrightarrow> files w' = files w"
  by (auto simp: fs_readFile_def)

lemma checkProductExists_files:
  "checkProductExists d w productId = (r, w') \<Longrightarrow> files w' = files w"
  by (auto simp: checkProductExists_def Let_def fs_access_def split: sum.splits)


lemma checkProductExists_present:
  assumes "files w (path_join [dirname d, ''..'', ''products'', s @ ''.json'']) = Some n"
  shows "checkProductExists d w (JString s) =
           (Exists (path_join [dirname d, ''..'', ''products'', s @ ''.json'']),
            emit (FsAccess (path_join [dirname d, ''..'', ''products'', s @ ''.json''])) w)"
  using assms by (simp add: checkProductExists_def Let_def fs_access_def)

lemma get_prop_defined_object:
  assumes "get_prop v k = Inr q" and "q \<noteq> JUndefined"
  shows "\<exists>kvs. v = JObject kvs \<and> map_of kvs k = Some q"
  using assms by (cases v) (auto simp: get_prop_def split: option.splits)

lemma get_prop_object: "\<exists>x. get_prop (JObject kvs) k = Inr x"
  by (simp add: get_prop_def)

lemma get_prop_field: "is_object v \<Longrightarrow> get_prop v k = Inr (field v k)"
  by (cases v) (simp_all add: is_object_def get_prop_def field_def)

text \<open>Comparisons of integers, as the checks on quantity and stock make them.\<close>

lemma int_comparisons:
  "truthy (JNumber (Num (of_int n))) \<longleftrightarrow> n \<noteq> 0"
  "js_lt (JNumber (Num (of_int n))) (JNumber (Num 1)) = Inr (n < 1)"
  "js_gt (JNumber (Num (of_int q))) (JNumber (Num (of_int n))) = Inr (n < q)"
  by (simp_all add: truthy_def js_lt_def js_gt_def to_primitive_def bind_def prim_less_def
      prim_to_number_def num_less_def)

lemma integer_not_positive_lt_1:
  assumes "Number_isInteger q" and "\<forall>n::int. 0 < n \<longrightarrow> q \<noteq> JNumber (Num (of_int n))"
  shows "js_lt q (JNumber (Num 1)) = Inr True"
proof -
  from assms(1) obtain r where q: "q = JNumber (Num r)" and i: "is_integer r"
    by (auto simp: Number_isInteger_def split: jsval.splits jsnum.splits)
  from i have r: "r = of_int \<lfloor>r\<rfloor>" unfolding is_integer_def by (rule sym)
  with assms(2) q have "\<not> 0 < \<lfloor>r\<rfloor>" by metis
  then have "\<lfloor>r\<rfloor> \<le> 0" by simp
  then have "r < 1" by linarith
  with q show ?thesis
    by (simp add: js_lt_def to_primitive_def bind_def prim_less_def prim_to_number_def num_less_def)
qed



section \<open>Reconciliation: the webhook\<close>

text \<open>
  \<open>updateProduct\<close> serialises its second argument. The webhook passes a function, which
  \<open>JSON.stringify\<close> turns into \<open>undefined\<close>, and \<open>fs.writeFile\<close> rejects that: the update
  fails whatever the product and the file system are, and no file changes.
\<close>

lemma updateProduct_function:
  "\<exists>err w2. updateProduct d w productId (JFunction c) = (Failure err, w2) \<and> files w2 = files w"
proof (cases "checkProductExists d w productId")
  case (Pair r w1)
  then have f: "files w1 = files w" by (rule checkProductExists_files)
  show ?thesis
  proof (cases r)
    case (NotExists err)
    with Pair f show ?thesis
      by (cases "to_string productId") (simp_all add: updateProduct_def)
  next
    case (Exists productPath)
    with Pair f show ?thesis
      by (simp add: updateProduct_def JSON_stringify_def fs_writeFile_def)
  qed
qed

text \<open>So the webhook never changes a file, whatever the request is.\<close>

lemma dispatch_event_files: "files (snd (dispatch_event d w ev)) = files w"
proof (cases "get_prop ev ''type''")
  case (Inl e)
  then show ?thesis by (simp add: dispatch_event_def)
next
  case (Inr ty)
  consider (completed) "ty = JString ''checkout.session.completed''"
    | (succeeded) "ty \<noteq> JString ''checkout.session.completed''" "ty = JString ''payment_intent.succeeded''"
    | (failed) "ty \<noteq> JString ''checkout.session.completed''" "ty \<noteq> JString ''payment_intent.succeeded''"
        "ty = JString ''payment_intent.payment_failed''"
    | (other) "ty \<noteq> JString ''checkout.session.completed''" "ty \<noteq> JString ''payment_intent.succeeded''"
        "ty \<noteq> JString ''payment_intent.payment_failed''"
    by blast
  then show ?thesis
  proof cases
    case completed
    show ?thesis
    proof (cases "bind (get_prop ev ''data'') (\<lambda>dat. bind (get_prop dat ''object'') (\<lambda>session.
                    bind (get_prop session ''id'') (\<lambda>sid. Inr (session, sid))))")
      case (Inl e)
      with Inr completed show ?thesis by (simp add: dispatch_event_def)
    next
      case s: (Inr p)
      obtain session sid where p: "p = (session, sid)" by (cases p)
      define w1 where "w1 = emit (ConsoleLog
          [Val (JString ([CHR 0xE2, CHR 0x9C, CHR 0x85] @ '' Checkout completed:'')), Val sid]) w"
      show ?thesis
      proof (cases "bind (get_prop session ''metadata'') (\<lambda>metadata.
                          bind (get_prop metadata ''product_id'') (\<lambda>productId.
                          bind (get_prop metadata ''quantity'') (\<lambda>q.
                          bind (to_string q) (\<lambda>qs. Inr (productId, parse_int10 qs)))))")
        case (Inl e)
        with Inr completed s p show ?thesis by (simp add: dispatch_event_def)
      next
        case m: (Inr pq)
        obtain productId quantityPurchased where pq: "pq = (productId, quantityPurchased)"
          by (cases pq)
        obtain err w2 where
          u: "updateProduct d w1 productId (JFunction (StockDecrement quantityPurchased)) =
                (Failure err, w2)"
          and f: "files w2 = files w1"
          using updateProduct_function by blast
        from f have "files w2 = files w" by (simp add: w1_def)
        with Inr completed s p m pq u show ?thesis
          by (simp add: dispatch_event_def w1_def)
      qed
    qed
  next
    case succeeded
    with Inr show ?thesis
      by (simp add: dispatch_event_def split: sum.split)
  next
    case failed
    with Inr show ?thesis
      by (simp add: dispatch_event_def split: sum.split)
  next
    case other
    with Inr show ?thesis
      by (simp add: dispatch_event_def split: sum.split)
  qed
qed

lemma post_webhook_files: "files (snd (post_webhook d w req)) = files w"
proof (cases "constructEvent d (req_body req) (lookup (req_headers req) ''stripe-signature'')
             (lookup (env d) ''STRIPE_WEBHOOK_SECRET'')")
  case (Inl err)
  then show ?thesis by (simp add: post_webhook_def handleWebhook_def)
next
  case (Inr ev)
  obtain r w' where x: "dispatch_event d w ev = (r, w')" by (cases "dispatch_event d w ev")
  with dispatch_event_files [of d w ev] have "files w' = files w" by simp
  with Inr x show ?thesis
    by (cases r) (simp_all add: post_webhook_def handleWebhook_def)
qed

text \<open>
  C1. For an authenticated \<open>checkout.session.completed\<close> event whose metadata names an
  existing product and a numeric quantity, the handler should decrement the persisted
  stock: product \<open>p1\<close> with stock 3 and event quantity \<open>"2"\<close> should end with stock 1.
  The code does not: at exactly this input the event is acknowledged, the file of \<open>p1\<close>
  still holds the record with stock 3, \<open>fs.writeFile\<close> was called with \<open>undefined\<close>
  data, and the failure is logged.
\<close>

theorem webhook_completed_stock_not_decremented:
  "fst (post_webhook example_deps example_world (webhook_request ''valid'' completed_event)) =
     json 200 [(''received'', JBool True)] \<and>
   files (snd (post_webhook example_deps example_world (webhook_request ''valid'' completed_event)))
     ''/app/src/products/p1.json'' = Some (File True True (JsonText p1)) \<and>
   field p1 ''stock'' = JNumber (Num 3) \<and>
   log (snd (post_webhook example_deps example_world (webhook_request ''valid'' completed_event))) =
     [ConsoleLog [Val (JString ([CHR 0xE2, CHR 0x9C, CHR 0x85] @ '' Checkout completed:'')),
                  Val (JString ''cs_test_1'')],
      FsAccess ''/app/src/products/p1.json'',
      FsWriteFile ''/app/src/products/p1.json'' None,
      ConsoleError [Val (JString ''Error updating product stock:''),
                    Val (JString (message ERR_INVALID_ARG_TYPE))]]"
  by (simp add: example_defs js_defs app_defs)

text \<open>
  C5. A webhook request whose signature does not verify is answered with status 400 and
  nothing else happens: the world after the request is the world before it with one
  line on the error console, so no product record is read or written and every file is
  unchanged.
\<close>

theorem invalid_signature_rejected:
  assumes "constructEvent d (req_body req) (lookup (req_headers req) ''stripe-signature'')
             (lookup (env d) ''STRIPE_WEBHOOK_SECRET'') = Inl err"
  shows "post_webhook d w req =
           (Respond \<lparr>status = 400, payload = TextBody (''Webhook Error: '' @ message err)\<rparr>,
            w\<lparr>log := log w @
               [ConsoleError [Val (JString ''Webhook signature verification failed:''),
                              Val (JString (message err))]]\<rparr>)"
  using assms by (simp add: post_webhook_def handleWebhook_def Let_def emit_def)

theorem invalid_signature_rejected_witness:
  "status_of (fst (post_webhook example_deps example_world
      (webhook_request ''forged'' completed_event))) = Some 400 \<and>
   files (snd (post_webhook example_deps example_world
      (webhook_request ''forged'' completed_event)))
     ''/app/src/products/p1.json'' = Some (File True True (JsonText p1))"
proof -
  have "constructEvent example_deps (req_body (webhook_request ''forged'' completed_event))
          (lookup (req_headers (webhook_request ''forged'' completed_event)) ''stripe-signature'')
          (lookup (env example_deps) ''STRIPE_WEBHOOK_SECRET'') =
        Inl (ProviderError ''No signatures found matching the expected signature for payload'')"
    by (simp add: example_deps_def webhook_request_def lookup_def)
  from invalid_signature_rejected [OF this, of example_world] show ?thesis
    by (simp add: status_of_def example_world_def)
qed

text \<open>The three kinds of dispatch, on an event of the documented shape.\<close>

lemma metadata_value_to_string:
  assumes "list_all (\<lambda>kv. is_string (snd kv)) m"
  shows "\<exists>s. to_string (field (JObject m) k) = Inr s"
proof (cases "map_of m k")
  case None
  then show ?thesis by (simp add: field_def)
next
  case (Some x)
  then have "(k, x) \<in> set m" by (rule map_of_SomeD)
  with assms have "is_string x" by (auto simp: list_all_iff)
  with Some show ?thesis by (cases x) (simp_all add: field_def is_string_def)
qed

lemma dispatch_completed:
  assumes "is_object ev" and "field ev ''type'' = JString ''checkout.session.completed''"
    and "is_object (field (field ev ''data'') ''object'')"
    and "field (field (field ev ''data'') ''object'') ''metadata'' = JObject m"
    and "list_all (\<lambda>kv. is_string (snd kv)) m"
  shows "\<exists>err w2. dispatch_event d w ev =
           (Inr (), emit (ConsoleError [Val (JString ''Error updating product stock:''),
                                        Val (JString err)]) w2) \<and> files w2 = files w"
proof -
  let ?session = "field (field ev ''data'') ''object''"
  let ?w1 = "emit (ConsoleLog
                [Val (JString ([CHR 0xE2, CHR 0x9C, CHR 0x85] @ '' Checkout completed:'')),
                 Val (field ?session ''id'')]) w"
  from assms(1,3) have d1: "is_object (field ev ''data'')"
    by (cases "field ev ''data''") (simp_all add: is_object_def field_def)
  obtain qs where qs: "to_string (field (JObject m) ''quantity'') = Inr qs"
    using metadata_value_to_string [OF assms(5)] by blast
  obtain err w2 where u: "updateProduct d ?w1 (field (JObject m) ''product_id'')
        (JFunction (StockDecrement (parse_int10 qs))) = (Failure err, w2)"
    and f: "files w2 = files ?w1"
    using updateProduct_function by blast
  have "dispatch_event d w ev =
           (Inr (), emit (ConsoleError [Val (JString ''Error updating product stock:''),
                                        Val (JString err)]) w2)"
    using assms(2,4) qs u
    by (simp add: dispatch_event_def get_prop_field [OF assms(1)] get_prop_field [OF d1]
        get_prop_field [OF assms(3)] get_prop_field [of "JObject m"] is_object_def bind_def)
  with f show ?thesis by auto
qed

lemma dispatch_payment_intent:
  assumes "is_object ev" and "field ev ''type'' = JString ty"
    and "ty = ''payment_intent.succeeded'' \<or> ty = ''payment_intent.payment_failed''"
    and "is_object (field (field ev ''data'') ''object'')"
  shows "\<exists>l. dispatch_event d w ev = (Inr (), emit (ConsoleLog l) w)"
proof -
  from assms(1,4) have d1: "is_object (field ev ''data'')"
    by (cases "field ev ''data''") (simp_all add: is_object_def field_def)
  from assms(2,3) show ?thesis
    by (auto simp add: dispatch_event_def get_prop_field [OF assms(1)] get_prop_field [OF d1]
        get_prop_field [OF assms(4)] bind_def)
qed

lemma dispatch_other:
  assumes "is_object ev" and "field ev ''type'' = JString ty"
    and "ty \<notin> {''checkout.session.completed'', ''payment_intent.succeeded'',
                ''payment_intent.payment_failed''}"
  shows "dispatch_event d w ev =
           (Inr (), emit (ConsoleLog [Val (JString (''Unhandled event type '' @ ty))]) w)"
  using assms(2,3) by (simp add: dispatch_event_def get_prop_field [OF assms(1)])

text \<open>
  C6, as stated, promises \<open>{received: true}\<close> for every event whose signature verifies.
  The \<open>switch\<close> of the handler runs outside any \<open>try\<close>: for a verified
  \<open>checkout.session.completed\<close> event whose session has \<open>metadata: null\<close>, reading
  \<open>session.metadata.product_id\<close> throws a \<open>TypeError\<close>, the error leaves the handler and
  no \<open>{received: true}\<close> is sent. (The same happens when \<open>metadata\<close> is absent.)
\<close>

theorem verified_event_counterexample:
  "constructEvent example_deps (req_body (webhook_request ''valid'' bare_event))
     (lookup (req_headers (webhook_request ''valid'' bare_event)) ''stripe-signature'')
     (lookup (env example_deps) ''STRIPE_WEBHOOK_SECRET'') = Inr bare_event \<and>
   fst (post_webhook example_deps example_world (webhook_request ''valid'' bare_event)) =
     Throw (TypeError (''Cannot read properties of null (reading '' @ quoted ''product_id'' @ '')'')) \<and>
   fst (post_webhook example_deps example_world (webhook_request ''valid'' bare_event)) \<noteq>
     json 200 [(''received'', JBool True)]"
  by (simp add: example_defs js_defs app_defs)

text \<open>
  C6, amended. For every webhook request whose signature verifies and whose event has
  the shape the provider documents (an object with a string \<open>type\<close> and an object at
  \<open>data.object\<close>, which for a completed checkout session carries a \<open>metadata\<close> object
  with string values), and for every state of the file system, the handler answers
  \<open>{received: true}\<close> with status 200, whatever the type of the event. For a
  \<open>checkout.session.completed\<close> event the failure of the stock update is the last line
  written to the error console, and the event is acknowledged all the same. An event
  of a type other than \<open>checkout.session.completed\<close>, \<open>payment_intent.succeeded\<close> and
  \<open>payment_intent.payment_failed\<close> is ignored: one line on the console, no error.
\<close>

theorem verified_event_acknowledged:
  assumes "constructEvent d (req_body req) (lookup (req_headers req) ''stripe-signature'')
             (lookup (env d) ''STRIPE_WEBHOOK_SECRET'') = Inr ev"
    and "stripe_event ev"
  shows "fst (post_webhook d w req) = json 200 [(''received'', JBool True)] \<and>
         (field ev ''type'' = JString ''checkout.session.completed'' \<longrightarrow>
            (\<exists>err. last (log (snd (post_webhook d w req))) =
               ConsoleError [Val (JString ''Error updating product stock:''), Val (JString err)])) \<and>
         (\<forall>ty. field ev ''type'' = JString ty \<and>
               ty \<notin> {''checkout.session.completed'', ''payment_intent.succeeded'',
                      ''payment_intent.payment_failed''} \<longrightarrow>
            snd (post_webhook d w req) =
              emit (ConsoleLog [Val (JString (''Unhandled event type '' @ ty))]) w)"
proof -
  from assms(2) have o: "is_object ev" and so: "is_object (field (field ev ''data'') ''object'')"
    by (simp_all add: stripe_event_def)
  from assms(2) obtain ty where ty: "field ev ''type'' = JString ty"
    by (cases "field ev ''type''") (simp_all add: stripe_event_def is_string_def)
  have h: "post_webhook d w req =
      (case dispatch_event d w ev of
         (Inl e, w') \<Rightarrow> (Throw e, w')
       | (Inr u, w') \<Rightarrow> (json 200 [(''received'', JBool True)], w'))"
    using assms(1) by (simp add: post_webhook_def handleWebhook_def)
  consider (completed) "ty = ''checkout.session.completed''"
    | (intent) "ty = ''payment_intent.succeeded'' \<or> ty = ''payment_intent.payment_failed''"
    | (other) "ty \<notin> {''checkout.session.completed'', ''payment_intent.succeeded'',
                ''payment_intent.payment_failed''}"
    by blast
  then show ?thesis
  proof cases
    case completed
    with assms(2) ty obtain m where
      m: "field (field (field ev ''data'') ''object'') ''metadata'' = JObject m"
      and ms: "list_all (\<lambda>kv. is_string (snd kv)) m"
      by (cases "field (field (field ev ''data'') ''object'') ''metadata''")
         (simp_all add: stripe_event_def)
    from dispatch_completed [OF o _ so m ms, of d w] ty completed
    obtain err w2 where "dispatch_event d w ev =
           (Inr (), emit (ConsoleError [Val (JString ''Error updating product stock:''),
                                        Val (JString err)]) w2)"
      by auto
    with h ty completed show ?thesis by simp
  next
    case intent
    from dispatch_payment_intent [OF o ty intent so, of d w]
    obtain l where "dispatch_event d w ev = (Inr (), emit (ConsoleLog l) w)" by blast
    with h ty intent show ?thesis by auto
  next
    case other
    from dispatch_other [OF o ty other, of d w] h ty other show ?thesis by simp
  qed
qed

theorem verified_event_acknowledged_witness:
  "fst (post_webhook example_deps example_world (webhook_request ''valid'' orphan_event)) =
     json 200 [(''received'', JBool True)] \<and>
   last (log (snd (post_webhook example_deps example_world
      (webhook_request ''valid'' orphan_event)))) =
     ConsoleError [Val (JString ''Error updating product stock:''),
                   Val (JString ''Product p9 not found'')] \<and>
   files (snd (post_webhook example_deps example_world (webhook_request ''valid'' orphan_event)))
     ''/app/src/products/p9.json'' = None \<and>
   post_webhook example_deps example_world
     (webhook_request ''valid'' (make_event ''customer.created'' [(''id'', JString ''cus_1'')])) =
     (json 200 [(''received'', JBool True)],
      emit (ConsoleLog [Val (JString ''Unhandled event type customer.created'')]) example_world)"
proof -
  let ?ev = "make_event ''customer.created'' [(''id'', JString ''cus_1'')]"
  have 1: "constructEvent example_deps (req_body (webhook_request ''valid'' orphan_event))
          (lookup (req_headers (webhook_request ''valid'' orphan_event)) ''stripe-signature'')
          (lookup (env example_deps) ''STRIPE_WEBHOOK_SECRET'') = Inr orphan_event"
    by (simp add: example_deps_def webhook_request_def lookup_def)
  have 2: "stripe_event orphan_event"
    by (simp add: stripe_event_def orphan_event_def make_event_def is_object_def is_string_def
        field_def)
  have 3: "last (log (snd (post_webhook example_deps example_world
      (webhook_request ''valid'' orphan_event)))) =
     ConsoleError [Val (JString ''Error updating product stock:''),
                   Val (JString ''Product p9 not found'')]"
    by (simp add: example_defs js_defs app_defs)
  have 4: "files (snd (post_webhook example_deps example_world
      (webhook_request ''valid'' orphan_event))) ''/app/src/products/p9.json'' = None"
    by (simp add: post_webhook_files) (simp add: example_world_def)
  have 5: "constructEvent example_deps (req_body (webhook_request ''valid'' ?ev))
          (lookup (req_headers (webhook_request ''valid'' ?ev)) ''stripe-signature'')
          (lookup (env example_deps) ''STRIPE_WEBHOOK_SECRET'') = Inr ?ev"
    by (simp add: example_deps_def webhook_request_def lookup_def)
  have 6: "stripe_event ?ev"
    by (simp add: stripe_event_def make_event_def is_object_def is_string_def field_def)
  have 7: "field ?ev ''type'' = JString ''customer.created''"
    by (simp add: make_event_def field_def)
  from verified_event_acknowledged [OF 1 2, of example_world]
  have a: "fst (post_webhook example_deps example_world (webhook_request ''valid'' orphan_event)) =
     json 200 [(''received'', JBool True)]"
    by simp
  from verified_event_acknowledged [OF 5 6, of example_world] 7
  have b: "post_webhook example_deps example_world (webhook_request ''valid'' ?ev) =
     (json 200 [(''received'', JBool True)],
      emit (ConsoleLog [Val (JString ''Unhandled event type customer.created'')]) example_world)"
    by (simp add: prod_eq_iff)
  from a 3 4 b show ?thesis by simp
qed

section \<open>Purchase requests: validation and availability\<close>

text \<open>
  Without a quantity in the body the parameters of the session cannot be built, and the
  controller answers 500 whatever the product is.
\<close>

lemma session_params_without_quantity: "\<exists>e. session_params d product JUndefined = Inl e"
  by (auto simp: session_params_def bind_def call_toString_def split: sum.splits)

lemma createCheckoutSession_without_quantity:
  assumes "get_prop (req_body req) ''quantity'' = Inr JUndefined"
  shows "\<exists>e. createCheckoutSession d w req =
           (json 500 [(''error'', JString ''Error creating checkout session'')],
            emit (ConsoleError [Val (JString ''Error creating checkout session:''), Err e]) w)"
  using assms session_params_without_quantity [of d "req_product req"]
  by (auto simp: createCheckoutSession_def createCheckoutSession_try_def)

text \<open>
  C2. A request that names an in-stock product and omits the quantity should be served
  with quantity 1. The default of \<open>validateCheckoutData\<close> stays in that middleware's
  local variable; the controller reads \<open>req.body.quantity\<close> again, finds \<open>undefined\<close>,
  and \<open>quantity.toString()\<close> throws while the provider's parameters are built: the
  request for product \<open>p1\<close> without quantity is answered with status 500, and the
  provider is never called.
\<close>

theorem omitted_quantity_fails:
  "fst (post_create_checkout_session example_deps example_world
          (purchase [(''product_id'', JString ''p1'')])) =
     json 500 [(''error'', JString ''Error creating checkout session'')] \<and>
   log (snd (post_create_checkout_session example_deps example_world
          (purchase [(''product_id'', JString ''p1'')]))) =
     [FsAccess ''/app/src/products/p1.json'',
      FsReadFile ''/app/src/products/p1.json'',
      ConsoleError [Val (JString ''Error creating checkout session:''),
        Err (TypeError (''Cannot read properties of undefined (reading '' @ quoted ''toString'' @ '')''))]]"
  by (simp add: example_defs js_defs app_defs)

text \<open>
  C3. A request whose body carries a quantity that is not a positive integer (zero,
  negative, fractional, or not a number at all) is answered with status 400 and one of
  the three validation messages, and the world is left exactly as it was: nothing is
  read from the Product Store and the payment provider is not called.
\<close>

theorem invalid_quantity_rejected:
  assumes "get_prop (req_body req) ''quantity'' = Inr q" and "q \<noteq> JUndefined"
    and "\<forall>n::int. 0 < n \<longrightarrow> q \<noteq> JNumber (Num (of_int n))"
  shows "\<exists>msg. post_create_checkout_session d w req = (json 400 [(''error'', JString msg)], w) \<and>
           msg \<in> {''Product ID is required'', ''Quantity is required'',
                   ''Quantity must be a positive integer''}"
proof -
  from assms(1,2) obtain kvs where b: "req_body req = JObject kvs"
    using get_prop_defined_object by blast
  then obtain product_id where p: "get_prop (req_body req) ''product_id'' = Inr product_id"
    using get_prop_object by auto
  have "\<exists>msg. validateCheckoutData req = json 400 [(''error'', JString msg)] \<and>
           msg \<in> {''Product ID is required'', ''Quantity is required'',
                   ''Quantity must be a positive integer''}"
    using p assms integer_not_positive_lt_1 [OF _ assms(3)]
    by (auto simp: validateCheckoutData_def)
  then show ?thesis
    by (auto simp: post_create_checkout_session_def json_def)
qed

theorem invalid_quantity_rejected_witness:
  "post_create_checkout_session example_deps example_world
     (purchase [(''product_id'', JString ''p1''), (''quantity'', JNumber (Num (3 / 2)))]) =
   (json 400 [(''error'', JString ''Quantity must be a positive integer'')], example_world)"
proof -
  let ?req = "purchase [(''product_id'', JString ''p1''), (''quantity'', JNumber (Num (3 / 2)))]"
  have 1: "get_prop (req_body ?req) ''quantity'' = Inr (JNumber (Num (3 / 2)))"
    by (simp add: purchase_def get_prop_def)
  have 2: "JNumber (Num (3 / 2)) \<noteq> JUndefined" by simp
  have 3: "\<forall>n::int. 0 < n \<longrightarrow> JNumber (Num (3 / 2)) \<noteq> JNumber (Num (of_int n))"
  proof (intro allI impI)
    fix n :: int
    have "(3::rat) / 2 \<noteq> of_int n"
    proof
      assume "(3::rat) / 2 = of_int n"
      then have "(3::rat) = of_int (2 * n)" by simp
      then have "(3::int) = 2 * n" by (metis of_int_eq_iff of_int_numeral)
      then show False by presburger
    qed
    then show "JNumber (Num (3 / 2)) \<noteq> JNumber (Num (of_int n))" by simp
  qed
  have 4: "\<not> Number_isInteger (JNumber (Num (3 / 2)))"
    by code_simp
  from invalid_quantity_rejected [OF 1 2 3, of example_deps example_world] 4
  show ?thesis
    by (auto simp: post_create_checkout_session_def validateCheckoutData_def purchase_def
        get_prop_def truthy_def json_def Let_def)
qed

text \<open>The availability check on an integer quantity and a readable record with integer stock.\<close>

lemma loadProductInfo_try_integers:
  assumes "get_prop (req_body req) ''product_id'' = Inr (JString ident)"
    and "get_prop (req_body req) ''quantity'' = Inr (JNumber (Num (of_int q)))"
    and "files w (path_join [dirname d, ''..'', ''products'', ident @ ''.json'']) =
           Some (File True wr (JsonText product))"
    and "get_prop product ''stock'' = Inr (JNumber (Num (of_int n)))"
  shows "loadProductInfo_try d w req =
    (Inr (if n \<le> 0 then
            json 400
              [(''error'', JString ''Product out of stock''),
               (''details'', JString (''The product with ID '' @ ident @ '' is out of stock'')),
               (''available'', JBool False)]
          else if n < q then
            json 400
              [(''error'', JString ''Insufficient stock''),
               (''details'', JString (''Requested quantity ('' @ number_to_string (Num (of_int q)) @
                   '') exceeds available stock ('' @ number_to_string (Num (of_int n)) @ '')'')),
               (''available'', JBool True),
               (''stock'', JNumber (Num (of_int n))),
               (''requested'', JNumber (Num (of_int q)))]
          else Next (req\<lparr>req_product := product\<rparr>)),
     emit (FsReadFile (path_join [dirname d, ''..'', ''products'', ident @ ''.json'']))
       (emit (FsAccess (path_join [dirname d, ''..'', ''products'', ident @ ''.json''])) w))"
  using assms(1,2,4) checkProductExists_present [OF assms(3)] assms(3)
  by (auto simp: loadProductInfo_try_def fs_readFile_def JSON_parse_def bind_def int_comparisons)

text \<open>
  C4, as stated, asks for the insufficient-stock rejection exactly when the requested
  quantity exceeds the stock. For the sold-out product \<open>p0\<close> (stock 0) and quantity 1
  the quantity exceeds the stock, and the rejection is the out-of-stock one: the check
  on the stock alone comes first.
\<close>

theorem availability_check_counterexample:
  "js_gt (JNumber (Num 1)) (field p0 ''stock'') = Inr True \<and>
   error_of (fst (loadProductInfo example_deps example_world
       (purchase [(''product_id'', JString ''p0''), (''quantity'', JNumber (Num 1))]))) =
     Some (400, JString ''Product out of stock'') \<and>
   error_of (fst (loadProductInfo example_deps example_world
       (purchase [(''product_id'', JString ''p0''), (''quantity'', JNumber (Num 1))]))) \<noteq>
     Some (400, JString ''Insufficient stock'')"
  by (simp add: example_defs js_defs app_defs)

text \<open>
  C4, amended. For every purchase request with an integer quantity \<open>q\<close> and a readable
  product record whose stock is an integer \<open>n\<close>, the availability check
  rejects with \<open>Product out of stock\<close> (status 400) exactly when \<open>n \<le> 0\<close>,
  rejects with \<open>Insufficient stock\<close> (status 400) exactly when \<open>0 < n\<close> and \<open>n < q\<close>,
  and otherwise passes the request on with the loaded product attached; on either
  rejection the route answers 400 and no payment session is requested.
\<close>

theorem availability_check:
  assumes "get_prop (req_body req) ''product_id'' = Inr (JString ident)"
    and "get_prop (req_body req) ''quantity'' = Inr (JNumber (Num (of_int q)))"
    and "files w (path_join [dirname d, ''..'', ''products'', ident @ ''.json'']) =
           Some (File True wr (JsonText product))"
    and "get_prop product ''stock'' = Inr (JNumber (Num (of_int n)))"
  shows "(error_of (fst (loadProductInfo d w req)) = Some (400, JString ''Product out of stock'')
            \<longleftrightarrow> n \<le> 0) \<and>
         (error_of (fst (loadProductInfo d w req)) = Some (400, JString ''Insufficient stock'')
            \<longleftrightarrow> 0 < n \<and> n < q) \<and>
         (0 < n \<and> q \<le> n \<longrightarrow>
            fst (loadProductInfo d w req) = Next (req\<lparr>req_product := product\<rparr>)) \<and>
         (n \<le> 0 \<or> n < q \<longrightarrow>
            status_of (fst (post_create_checkout_session d w req)) = Some 400 \<and>
            sessions_created (snd (post_create_checkout_session d w req)) = sessions_created w)"
proof -
  note l = loadProductInfo_try_integers [OF assms]
  have a: "error_of (fst (loadProductInfo d w req)) = Some (400, JString ''Product out of stock'')
            \<longleftrightarrow> n \<le> 0"
    by (simp add: loadProductInfo_def l json_def error_of_def field_def)
  have b: "error_of (fst (loadProductInfo d w req)) = Some (400, JString ''Insufficient stock'')
            \<longleftrightarrow> 0 < n \<and> n < q"
    by (auto simp add: loadProductInfo_def l json_def error_of_def field_def)
  have c: "0 < n \<and> q \<le> n \<longrightarrow>
            fst (loadProductInfo d w req) = Next (req\<lparr>req_product := product\<rparr>)"
    by (auto simp add: loadProductInfo_def l)
  have r: "n \<le> 0 \<or> n < q \<longrightarrow>
            status_of (fst (post_create_checkout_session d w req)) = Some 400 \<and>
            sessions_created (snd (post_create_checkout_session d w req)) = sessions_created w"
  proof
    assume rejected: "n \<le> 0 \<or> n < q"
    show "status_of (fst (post_create_checkout_session d w req)) = Some 400 \<and>
            sessions_created (snd (post_create_checkout_session d w req)) = sessions_created w"
    proof (cases "validateCheckoutData req")
      case (Next req1)
      then have "req1 = req"
        by (auto simp: validateCheckoutData_def Let_def json_def split: sum.splits if_splits)
      with Next rejected show ?thesis
        by (auto simp: post_create_checkout_session_def loadProductInfo_def l json_def
            status_of_def sessions_created_def)
    next
      case (Respond res)
      then have "status res = 400"
        by (auto simp: validateCheckoutData_def Let_def json_def split: sum.splits if_splits)
      with Respond show ?thesis
        by (simp add: post_create_checkout_session_def status_of_def)
    next
      case (Throw e)
      with assms(1,2) show ?thesis
        by (auto simp: validateCheckoutData_def Let_def json_def int_comparisons
            split: sum.splits if_splits)
    qed
  qed
  from a b c r show ?thesis by blast
qed

theorem availability_check_witness:
  "error_of (fst (loadProductInfo example_deps example_world
       (purchase [(''product_id'', JString ''p1''), (''quantity'', JNumber (Num 6))]))) =
     Some (400, JString ''Insufficient stock'') \<and>
   sessions_created (snd (post_create_checkout_session example_deps example_world
       (purchase [(''product_id'', JString ''p1''), (''quantity'', JNumber (Num 6))]))) = []"
proof -
  let ?req = "purchase [(''product_id'', JString ''p1''), (''quantity'', JNumber (Num 6))]"
  have 1: "get_prop (req_body ?req) ''product_id'' = Inr (JString ''p1'')"
    by (simp add: purchase_def get_prop_def)
  have 2: "get_prop (req_body ?req) ''quantity'' = Inr (JNumber (Num (of_int 6)))"
    by (simp add: purchase_def get_prop_def)
  have 3: "files example_world
      (path_join [dirname example_deps, ''..'', ''products'', ''p1'' @ ''.json'']) =
        Some (File True True (JsonText p1))"
    by (simp add: example_defs js_defs)
  have 4: "get_prop p1 ''stock'' = Inr (JNumber (Num (of_int 3)))"
    by (simp add: p1_def get_prop_def)
  from availability_check [OF 1 2 3 4] show ?thesis
    by (simp add: sessions_created_def example_world_def)
qed

section \<open>The Product Store is only read by a purchase\<close>

lemma loadProductInfo_try_files:
  "loadProductInfo_try d w req = (r, w') \<Longrightarrow> files w' = files w"
  unfolding loadProductInfo_try_def
  by (auto split: sum.splits prod.splits product_check.splits
      dest!: checkProductExists_files fs_readFile_files)

lemma loadProductInfo_files: "loadProductInfo d w req = (r, w') \<Longrightarrow> files w' = files w"
  unfolding loadProductInfo_def
  by (auto split: sum.splits prod.splits dest!: loadProductInfo_try_files)

lemma createCheckoutSession_try_files:
  "createCheckoutSession_try d w req = (r, w') \<Longrightarrow> files w' = files w"
  unfolding createCheckoutSession_try_def
  by (auto split: sum.splits)

lemma createCheckoutSession_files:
  "createCheckoutSession d w req = (r, w') \<Longrightarrow> files w' = files w"
  unfolding createCheckoutSession_def
  by (auto split: sum.splits prod.splits dest!: createCheckoutSession_try_files)

text \<open>
  C7. Handling \<open>POST /create-checkout-session\<close> never modifies the Product Store: for
  every request, every dependency and every state of the file system, accepted or
  rejected, the files after the handling are the files before it. The availability
  check and the controller only call \<open>fs.access\<close> and \<open>fs.readFile\<close>.
\<close>

theorem create_checkout_session_store_unchanged:
  "files (snd (post_create_checkout_session d w req)) = files w"
proof (cases "validateCheckoutData req")
  case (Respond r)
  then show ?thesis by (simp add: post_create_checkout_session_def)
next
  case (Throw e)
  then show ?thesis by (simp add: post_create_checkout_session_def)
next
  case v: (Next req1)
  obtain out w2 where l: "loadProductInfo d w req1 = (out, w2)"
    by (cases "loadProductInfo d w req1")
  then have f2: "files w2 = files w" by (rule loadProductInfo_files)
  show ?thesis
  proof (cases out)
    case (Next req2)
    obtain out3 w3 where c: "createCheckoutSession d w2 req2 = (out3, w3)"
      by (cases "createCheckoutSession d w2 req2")
    then have "files w3 = files w2" by (rule createCheckoutSession_files)
    with f2 c l Next v show ?thesis
      by (simp add: post_create_checkout_session_def)
  next
    case (Respond r)
    with f2 l v show ?thesis by (simp add: post_create_checkout_session_def)
  next
    case (Throw e)
    with f2 l v show ?thesis by (simp add: post_create_checkout_session_def)
  qed
qed

theorem create_checkout_session_store_unchanged_witness:
  "files (snd (post_create_checkout_session example_deps example_world
      (purchase [(''product_id'', JString ''p1''), (''quantity'', JNumber (Num 2))])))
     ''/app/src/products/p1.json'' = Some (File True True (JsonText p1))"
  using create_checkout_session_store_unchanged [of example_deps example_world
      "purchase [(''product_id'', JString ''p1''), (''quantity'', JNumber (Num 2))]"]
  by (simp add: example_world_def)

section \<open>Products without a record, and paths outside the store\<close>



text \<open>
  C10. The product's path is joined from the identifier as it came. There is an
  identifier with \<open>..\<close> segments (\<open>../../package\<close>) whose path, \<open>/app/package.json\<close>,
  lies outside the products directory \<open>/app/src/products/\<close>; for it
  \<open>GET /products/:id\<close> checks and reads that file and answers 200 with its content,
  and \<open>POST /create-checkout-session\<close> checks and reads the same file.
\<close>

theorem product_path_escapes_store:
  "\<exists>ident. ''..'' \<in> set (split_slash ident) \<and>
     path_join [dirname example_deps, ''..'', ''products'', ident @ ''.json''] =
       ''/app/package.json'' \<and>
     \<not> prefix ''/app/src/products/'' ''/app/package.json'' \<and>
     get_products_id example_deps example_world ident =
       (json 200
          [(''success'', JBool True),
           (''data'', JObject
              [(''name'', JString ''stripe-checkout-api''), (''version'', JString ''1.0.0''),
               (''available'', JBool False), (''outOfStock'', JBool False),
               (''inStock'', JBool False)])],
        example_world\<lparr>log :=
          [FsAccess ''/app/package.json'', FsReadFile ''/app/package.json'']\<rparr>) \<and>
     log (snd (post_create_checkout_session example_deps example_world
            (purchase [(''product_id'', JString ident), (''quantity'', JNumber (Num 1))]))) =
       [FsAccess ''/app/package.json'', FsReadFile ''/app/package.json'']"
  by (rule exI [of _ "''../../package''"]) (simp add: example_defs js_defs app_defs)

section \<open>Writing a record and reading it back\<close>

lemma json_image_representable:
  "json_representable v \<Longrightarrow> json_image v = Some v"
  "json_representable_list xs \<Longrightarrow> json_elements xs = xs"
  "json_representable_properties kvs \<Longrightarrow> json_properties kvs = kvs"
proof (induction v and xs and kvs
    rule: json_representable_json_representable_list_json_representable_properties.induct)
  case (5 x)
  then show ?case by (cases x) simp_all
qed simp_all

text \<open>
  C9. Round trip: for every product identifier whose record is an existing file that
  may be read and written, and for every JSON-representable record, \<open>updateProduct\<close>
  succeeds and \<open>getProduct\<close> then returns the record that was written, equal as a value
  (so field for field).
\<close>

theorem store_round_trip:
  assumes "files w (path_join [dirname d, ''..'', ''products'', ident @ ''.json'']) =
             Some (File True True old)"
    and "json_representable updated"
  shows "fst (updateProduct d w (JString ident) updated) = Success () \<and>
         fst (getProduct d (snd (updateProduct d w (JString ident) updated)) (JString ident)) =
           Success updated"
proof -
  define p where "p = path_join [dirname d, ''..'', ''products'', ident @ ''.json'']"
  define w2 where "w2 = emit (FsWriteFile p (Some (JsonText updated)))
      ((emit (FsAccess p) w)\<lparr>files := (files w)(p \<mapsto> File True True (JsonText updated))\<rparr>)"
  have s: "JSON_stringify updated = Some (JsonText updated)"
    using assms(2) by (simp add: JSON_stringify_def json_image_representable)
  have u: "updateProduct d w (JString ident) updated = (Success (), w2)"
    using assms(1)
    by (simp add: updateProduct_def checkProductExists_present [OF assms(1)] s fs_writeFile_def
        p_def w2_def)
  have f: "files w2 (path_join [dirname d, ''..'', ''products'', ident @ ''.json'']) =
             Some (File True True (JsonText updated))"
    by (simp add: w2_def p_def)
  have "fst (getProduct d w2 (JString ident)) = Success updated"
    using f
    by (simp add: getProduct_def checkProductExists_present [OF f] fs_readFile_def JSON_parse_def)
  with u show ?thesis by simp
qed

theorem store_round_trip_witness:
  "fst (getProduct example_deps
         (snd (updateProduct example_deps example_world (JString ''p1'') p0)) (JString ''p1'')) =
     Success p0"
proof -
  have 1: "files example_world
      (path_join [dirname example_deps, ''..'', ''products'', ''p1'' @ ''.json'']) =
        Some (File True True (JsonText p1))"
    by (simp add: example_defs js_defs)
  have 2: "json_representable p0" by (simp add: p0_def)
  from store_round_trip [OF 1 2] show ?thesis by simp
qed

end
